theory Spec2Isabelle
  imports Complex_Main
begin

section \<open>Numbers of the Go program\<close>

text \<open>
  Go's \<open>int\<close> is modelled by \<open>int\<close>. Every integer the averaging functions compute
  from a validated width (\<open>1 \<le> width < 360\<close>) and an in-range middle angle stays
  within a few hundred, far from the 64-bit bounds, so no wrap-around is written out.
  Go's \<open>%\<close> and \<open>/\<close> on integers truncate towards zero.
\<close>

definition go_rem :: "int \<Rightarrow> int \<Rightarrow> int" where
  "go_rem a b = sgn a * (\<bar>a\<bar> mod \<bar>b\<bar>)"

definition go_quot :: "int \<Rightarrow> int \<Rightarrow> int" where
  "go_quot a b = sgn a * sgn b * (\<bar>a\<bar> div \<bar>b\<bar>)"

text \<open>
  A \<open>float64\<close> is a finite value, an infinity or NaN. Finite values are modelled by
  exact reals: rounding, overflow and the sign of zero are not modelled. The special
  values follow IEEE 754: every comparison with NaN is false, \<open>0/0\<close> is NaN.
\<close>

datatype float64 = Finite real | PosInf | NegInf | NaN

fun flt :: "float64 \<Rightarrow> float64 \<Rightarrow> bool" where
  "flt NaN _ = False"
| "flt _ NaN = False"
| "flt (Finite a) (Finite b) = (a < b)"
| "flt NegInf NegInf = False"
| "flt NegInf _ = True"
| "flt _ NegInf = False"
| "flt PosInf _ = False"
| "flt _ PosInf = True"

fun feq :: "float64 \<Rightarrow> float64 \<Rightarrow> bool" where
  "feq NaN _ = False"
| "feq _ NaN = False"
| "feq a b = (a = b)"

definition fge :: "float64 \<Rightarrow> float64 \<Rightarrow> bool" where
  "fge a b = (flt b a \<or> feq a b)"

definition fle :: "float64 \<Rightarrow> float64 \<Rightarrow> bool" where
  "fle a b = (flt a b \<or> feq a b)"

definition fgt :: "float64 \<Rightarrow> float64 \<Rightarrow> bool" where
  "fgt a b = flt b a"

fun fneg :: "float64 \<Rightarrow> float64" where
  "fneg (Finite a) = Finite (- a)"
| "fneg PosInf = NegInf"
| "fneg NegInf = PosInf"
| "fneg NaN = NaN"

fun fadd :: "float64 \<Rightarrow> float64 \<Rightarrow> float64" where
  "fadd NaN _ = NaN"
| "fadd _ NaN = NaN"
| "fadd (Finite a) (Finite b) = Finite (a + b)"
| "fadd PosInf NegInf = NaN"
| "fadd NegInf PosInf = NaN"
| "fadd PosInf _ = PosInf"
| "fadd NegInf _ = NegInf"
| "fadd _ PosInf = PosInf"
| "fadd _ NegInf = NegInf"

definition fsub :: "float64 \<Rightarrow> float64 \<Rightarrow> float64" where
  "fsub a b = fadd a (fneg b)"

fun fdiv :: "float64 \<Rightarrow> float64 \<Rightarrow> float64" where
  "fdiv NaN _ = NaN"
| "fdiv _ NaN = NaN"
| "fdiv (Finite a) (Finite b) =
     (if b = 0 then (if a = 0 then NaN else if 0 < a then PosInf else NegInf)
      else Finite (a / b))"
| "fdiv (Finite a) _ = Finite 0"
| "fdiv PosInf (Finite b) = (if b < 0 then NegInf else PosInf)"
| "fdiv NegInf (Finite b) = (if b < 0 then PosInf else NegInf)"
| "fdiv _ _ = NaN"

text \<open>\<open>float64(n)\<close>, \<open>math.Floor\<close>, \<open>math.Ceil\<close> and the conversion \<open>int(x)\<close>
  (truncation towards zero; implementation-specific on a non-finite value, 0 here).\<close>

definition float64_of_int :: "int \<Rightarrow> float64" where
  "float64_of_int n = Finite (of_int n)"

fun Floor :: "float64 \<Rightarrow> float64" where
  "Floor (Finite a) = Finite (of_int \<lfloor>a\<rfloor>)"
| "Floor x = x"

fun Ceil :: "float64 \<Rightarrow> float64" where
  "Ceil (Finite a) = Finite (of_int \<lceil>a\<rceil>)"
| "Ceil x = x"

fun int_of_float64 :: "float64 \<Rightarrow> int" where
  "int_of_float64 (Finite a) = (if a < 0 then \<lceil>a\<rceil> else \<lfloor>a\<rfloor>)"
| "int_of_float64 _ = 0"

section \<open>Errors, panics and results\<close>

text \<open>
  The sentinel errors of \<open>errors.go\<close> that the modelled functions return, and the
  errors \<open>NewMeasure\<close> and \<open>NewMeasureFromString\<close> build with \<open>fmt.Errorf\<close>
  (one constructor per message, carrying the value the message prints).
\<close>

datatype error =
    ErrHandlerAlreadyRunning
  | ErrAngleWidthMustBeOdd
  | ErrAngleWidthTooSmall
  | ErrAngleWidthTooLarge
  | ErrAngleWithoutSyncBit float64
  | ErrAngleWithSyncBit float64
  | ErrExpected3Fields nat
  | ErrParseAngle
  | ErrParseDistance
  | ErrParseQuality
  | ErrCreateProducer
  | ErrRunToWrap

text \<open>A run-time panic of Go: an index outside an array, with the index and the length.\<close>

datatype panic = IndexOutOfRange int nat

text \<open>What a call does: it panics, returns a non-nil error, or returns a value.\<close>

datatype 'a result = Panicked panic | Failed error | Ok 'a

section \<open>Measure\<close>

record Measure =
  angle :: float64
  distance :: float64
  quality :: int
  hasSyncBit :: bool

definition GetAngle :: "Measure \<Rightarrow> float64" where
  "GetAngle m = angle m"

definition GetDistance :: "Measure \<Rightarrow> float64" where
  "GetDistance m = distance m"

definition GetQuality :: "Measure \<Rightarrow> int" where
  "GetQuality m = quality m"

definition validateAngle :: "float64 \<Rightarrow> bool \<Rightarrow> error option" where
  "validateAngle a sync =
     (if \<not> sync then
        (if flt a (Finite 0) \<or> fge a (Finite 360) then Some (ErrAngleWithoutSyncBit a)
         else None)
      else if flt a (Finite 0) then Some (ErrAngleWithSyncBit a)
      else None)"

definition NewMeasure ::
  "float64 \<Rightarrow> float64 \<Rightarrow> int \<Rightarrow> bool \<Rightarrow> bool \<Rightarrow> float64 \<Rightarrow> error + Measure" where
  "NewMeasure a d q sync isUpsideDown angleAdjustment =
     (case validateAngle a sync of
        Some err \<Rightarrow> Inl err
      | None \<Rightarrow>
          (let a1 = (if sync then fsub a (Finite 360) else a);
               a2 = (if isUpsideDown then fsub (Finite 360) a1 else a1);
               a3 = (if feq angleAdjustment (Finite 0) then a2 else fadd a2 angleAdjustment);
               a4 = (if flt a3 (Finite 0) then fadd a3 (Finite 360)
                     else if fge a3 (Finite 360) then fsub a3 (Finite 360)
                     else a3)
           in Inr \<lparr>angle = a4, distance = d, quality = q, hasSyncBit = sync\<rparr>))"

section \<open>The averaging engine\<close>

text \<open>
  The buffer \<open>*[360]*Measure\<close> is a list of optional measures; the Go type fixes its
  length at 360, which the theorems assume. Indexing checks the bounds as Go does.
\<close>

type_synonym measures = "Measure option list"

definition index_measures :: "measures \<Rightarrow> int \<Rightarrow> panic + Measure option" where
  "index_measures ms i =
     (if 0 \<le> i \<and> i < int (length ms) then Inr (ms ! nat i)
      else Inl (IndexOutOfRange i (length ms)))"

text \<open>The three loops of lines 47 to 63 that collect the angles, in their order.\<close>

definition window_angles :: "int \<Rightarrow> int \<Rightarrow> int list" where
  "window_angles middleAngle width =
     (let widthPerSide = go_quot (width - 1) 2;
          leftAngle = middleAngle - widthPerSide;
          rightAngle = middleAngle + widthPerSide
      in (if leftAngle < 0 then [360 + leftAngle .. 360 - 1] else [])
         @ (if 360 \<le> rightAngle then [0 .. rightAngle - 360] else [])
         @ [max leftAngle 0 .. min 360 rightAngle])"

text \<open>The loop of lines 66 to 79 over the collected angles, with the running
  \<open>totalDistance\<close> and \<open>count\<close>.\<close>

fun average_loop :: "measures \<Rightarrow> int list \<Rightarrow> float64 \<Rightarrow> int \<Rightarrow> (float64 \<times> int) result" where
  "average_loop ms [] totalDistance count = Ok (totalDistance, count)"
| "average_loop ms (a # as) totalDistance count =
     (case index_measures ms a of
        Inl p \<Rightarrow> Panicked p
      | Inr None \<Rightarrow> average_loop ms as totalDistance count
      | Inr (Some m) \<Rightarrow>
          (if feq (GetDistance m) (Finite 0) \<or> GetQuality m = 0
           then average_loop ms as totalDistance count
           else average_loop ms as (fadd totalDistance (GetDistance m)) (count + 1)))"

definition GetAverageDistanceFromAngle :: "measures \<Rightarrow> int \<Rightarrow> int \<Rightarrow> float64 result" where
  "GetAverageDistanceFromAngle ms middleAngle width =
     (if go_rem width 2 = 0 then Failed ErrAngleWidthMustBeOdd
      else if width < 1 then Failed ErrAngleWidthTooSmall
      else if 360 \<le> width then Failed ErrAngleWidthTooLarge
      else if width = 1 then
        (case index_measures ms middleAngle of
           Inl p \<Rightarrow> Panicked p
         | Inr None \<Rightarrow> Ok (Finite 0)
         | Inr (Some m) \<Rightarrow> Ok (GetDistance m))
      else
        (case average_loop ms (window_angles middleAngle width) (Finite 0) 0 of
           Panicked p \<Rightarrow> Panicked p
         | Failed e \<Rightarrow> Failed e
         | Ok (totalDistance, count) \<Rightarrow> Ok (fdiv totalDistance (float64_of_int count))))"

text \<open>
  The conditions of the specification on a slot of the window, in its words: a slot
  contributes when it is present with nonzero distance and nonzero quality; the sum and
  the count run over the contributing slots of the inspected angles, in their order.
\<close>

definition contributes :: "Measure option \<Rightarrow> bool" where
  "contributes slot =
     (case slot of
        None \<Rightarrow> False
      | Some m \<Rightarrow> \<not> feq (distance m) (Finite 0) \<and> \<not> quality m = 0)"

definition slot_distance :: "Measure option \<Rightarrow> float64" where
  "slot_distance slot = (case slot of None \<Rightarrow> Finite 0 | Some m \<Rightarrow> distance m)"

definition window_sum :: "measures \<Rightarrow> int list \<Rightarrow> float64" where
  "window_sum ms as =
     foldl fadd (Finite 0)
       (map (\<lambda>a. slot_distance (ms ! nat a)) (filter (\<lambda>a. contributes (ms ! nat a)) as))"

definition window_count :: "measures \<Rightarrow> int list \<Rightarrow> int" where
  "window_count ms as = int (length (filter (\<lambda>a. contributes (ms ! nat a)) as))"

section \<open>The direction table\<close>

datatype CardinalDirection =
    CardinalDirectionNil
  | CardinalDirectionNorth
  | CardinalDirectionWest
  | CardinalDirectionEast
  | CardinalDirectionSouth
  | CardinalDirectionNorthwest
  | CardinalDirectionNortheast
  | CardinalDirectionSouthwest
  | CardinalDirectionSoutheast
  | CardinalDirectionWestNorthwest
  | CardinalDirectionNorthNorthwest
  | CardinalDirectionEastNortheast
  | CardinalDirectionNorthNortheast
  | CardinalDirectionWestSouthwest
  | CardinalDirectionEastSoutheast
  | CardinalDirectionSouthSouthwest
  | CardinalDirectionSouthSoutheast

definition CardinalDirectionAngles :: "CardinalDirection \<rightharpoonup> float64" where
  "CardinalDirectionAngles =
     [CardinalDirectionNorth \<mapsto> Finite 0,
      CardinalDirectionNorthNortheast \<mapsto> Finite 22.5,
      CardinalDirectionNortheast \<mapsto> Finite 45,
      CardinalDirectionEastNortheast \<mapsto> Finite 67.5,
      CardinalDirectionEast \<mapsto> Finite 90,
      CardinalDirectionEastSoutheast \<mapsto> Finite 112.5,
      CardinalDirectionSoutheast \<mapsto> Finite 135,
      CardinalDirectionSouthSoutheast \<mapsto> Finite 157.5,
      CardinalDirectionSouth \<mapsto> Finite 180,
      CardinalDirectionSouthSouthwest \<mapsto> Finite 202.5,
      CardinalDirectionSouthwest \<mapsto> Finite 225,
      CardinalDirectionWestSouthwest \<mapsto> Finite 247.5,
      CardinalDirectionWest \<mapsto> Finite 270,
      CardinalDirectionWestNorthwest \<mapsto> Finite 292.5,
      CardinalDirectionNorthwest \<mapsto> Finite 315,
      CardinalDirectionNorthNorthwest \<mapsto> Finite 337.5]"

definition CardinalDirections :: "CardinalDirection list" where
  "CardinalDirections =
     [CardinalDirectionNorth,
      CardinalDirectionWest,
      CardinalDirectionEast,
      CardinalDirectionSouth,
      CardinalDirectionNorthwest,
      CardinalDirectionNortheast,
      CardinalDirectionSouthwest,
      CardinalDirectionSoutheast,
      CardinalDirectionWestNorthwest,
      CardinalDirectionNorthNorthwest,
      CardinalDirectionEastNortheast,
      CardinalDirectionNorthNortheast,
      CardinalDirectionWestSouthwest,
      CardinalDirectionEastSoutheast,
      CardinalDirectionSouthSouthwest,
      CardinalDirectionSouthSoutheast]"

text \<open>A Go map read of a key that is not in the map gives the zero value, 0.0.\<close>

definition Angle :: "CardinalDirection \<Rightarrow> float64" where
  "Angle r = (case CardinalDirectionAngles r of None \<Rightarrow> Finite 0 | Some a \<Rightarrow> a)"

definition GetAverageDistanceFromDirection ::
  "measures \<Rightarrow> int \<Rightarrow> CardinalDirection \<Rightarrow> float64 result" where
  "GetAverageDistanceFromDirection ms width direction =
     (let directionAngle = Angle direction;
          rounded = (if fge directionAngle (Finite 180) then Ceil directionAngle
                     else Floor directionAngle)
      in GetAverageDistanceFromAngle ms (int_of_float64 rounded) width)"

fun directions_loop ::
  "measures \<Rightarrow> int \<Rightarrow> CardinalDirection list \<Rightarrow> (CardinalDirection \<rightharpoonup> float64)
     \<Rightarrow> (CardinalDirection \<rightharpoonup> float64) result" where
  "directions_loop ms width [] avgDistances = Ok avgDistances"
| "directions_loop ms width (direction # directions) avgDistances =
     (case GetAverageDistanceFromDirection ms width direction of
        Panicked p \<Rightarrow> Panicked p
      | Failed err \<Rightarrow> Failed err
      | Ok avgDistance \<Rightarrow>
          directions_loop ms width directions (avgDistances(direction \<mapsto> avgDistance)))"

definition GetAverageDistancesFromDirections ::
  "measures \<Rightarrow> int \<Rightarrow> CardinalDirection list \<Rightarrow> (CardinalDirection \<rightharpoonup> float64) result" where
  "GetAverageDistancesFromDirections ms width directions =
     directions_loop ms width directions Map.empty"

text \<open>
  Modelled from the spec: the package function \<open>GetAverageDistanceFromAllDirections\<close>,
  which the handler method of \<open>types.go\<close> calls, is not among the sources. The
  specification describes it as the convenience form iterating the full 16-entry
  direction table.
\<close>

definition GetAverageDistanceFromAllDirections ::
  "measures \<Rightarrow> int \<Rightarrow> (CardinalDirection \<rightharpoonup> float64) result" where
  "GetAverageDistanceFromAllDirections ms width =
     GetAverageDistancesFromDirections ms width CardinalDirections"

text \<open>The rounding rule of the specification, in its words: the ceiling in the upper
  semicircle (180 degrees and more), the floor below.\<close>

definition semicircle_round :: "real \<Rightarrow> int" where
  "semicircle_round x = (if 180 \<le> x then \<lceil>x\<rceil> else \<lfloor>x\<rfloor>)"

text \<open>The integer degree at which each direction is averaged (lemma
  \<open>direction_delegates\<close> derives it from the table and the rounding).\<close>

fun direction_degree :: "CardinalDirection \<Rightarrow> int" where
  "direction_degree CardinalDirectionNil = 0"
| "direction_degree CardinalDirectionNorth = 0"
| "direction_degree CardinalDirectionNorthNortheast = 22"
| "direction_degree CardinalDirectionNortheast = 45"
| "direction_degree CardinalDirectionEastNortheast = 67"
| "direction_degree CardinalDirectionEast = 90"
| "direction_degree CardinalDirectionEastSoutheast = 112"
| "direction_degree CardinalDirectionSoutheast = 135"
| "direction_degree CardinalDirectionSouthSoutheast = 157"
| "direction_degree CardinalDirectionSouth = 180"
| "direction_degree CardinalDirectionSouthSouthwest = 203"
| "direction_degree CardinalDirectionSouthwest = 225"
| "direction_degree CardinalDirectionWestSouthwest = 248"
| "direction_degree CardinalDirectionWest = 270"
| "direction_degree CardinalDirectionWestNorthwest = 293"
| "direction_degree CardinalDirectionNorthwest = 315"
| "direction_degree CardinalDirectionNorthNorthwest = 338"

section \<open>Serializing and parsing a measure\<close>

definition SyncBitCharacter :: string where
  "SyncBitCharacter = ''S''"

definition AttributesSeparator :: string where
  "AttributesSeparator = '',''"

definition AngleIndex :: nat where
  "AngleIndex = 0"

definition DistanceIndex :: nat where
  "DistanceIndex = 1"

definition QualityIndex :: nat where
  "QualityIndex = 2"

text \<open>
  The verbs of \<open>fmt.Sprintf\<close> that \<open>String\<close> uses. \<open>%f\<close> prints a sign, the
  integer digits, a point and six fraction digits, rounded to nearest (ties to even);
  \<open>%d\<close> prints a sign and the digits.
\<close>

definition digit_char :: "nat \<Rightarrow> char" where
  "digit_char d = ''0123456789'' ! d"

fun decimal_digits :: "nat \<Rightarrow> string" where
  "decimal_digits n =
     (if n < 10 then [digit_char n] else decimal_digits (n div 10) @ [digit_char (n mod 10)])"

declare decimal_digits.simps [simp del]

definition round_half_even :: "real \<Rightarrow> nat" where
  "round_half_even x =
     (let q = nat \<lfloor>x\<rfloor>; r = x - of_int \<lfloor>x\<rfloor>
      in if r < 1 / 2 then q
         else if 1 / 2 < r then q + 1
         else if even q then q else q + 1)"

definition six_digits :: "nat \<Rightarrow> string" where
  "six_digits n =
     map digit_char
       [n div 100000 mod 10, n div 10000 mod 10, n div 1000 mod 10,
        n div 100 mod 10, n div 10 mod 10, n mod 10]"

fun format_f :: "float64 \<Rightarrow> string" where
  "format_f (Finite x) =
     (let n = round_half_even (\<bar>x\<bar> * 1000000)
      in (if x < 0 then ''-'' else [])
         @ decimal_digits (n div 1000000) @ ''.'' @ six_digits (n mod 1000000))"
| "format_f PosInf = ''+Inf''"
| "format_f NegInf = ''-Inf''"
| "format_f NaN = ''NaN''"

definition format_d :: "int \<Rightarrow> string" where
  "format_d i = (if i < 0 then ''-'' else []) @ decimal_digits (nat \<bar>i\<bar>)"

definition String :: "Measure \<Rightarrow> string" where
  "String m =
     format_f (angle m) @ AttributesSeparator @ format_f (distance m)
       @ AttributesSeparator @ format_d (quality m)"

text \<open>
  \<open>strings.Fields\<close> splits a string around runs of white space. The separators
  modelled are the six ASCII ones (tab, line feed, vertical tab, form feed, carriage
  return, space); on a string with bytes above 127 Go also splits at the Unicode
  spaces, which the model leaves out.
\<close>

definition asciiSpace :: "char \<Rightarrow> bool" where
  "asciiSpace c = (c \<in> set [CHR 0x09, CHR 0x0A, CHR 0x0B, CHR 0x0C, CHR 0x0D, CHR '' ''])"

fun fields_from :: "string \<Rightarrow> string \<Rightarrow> string list" where
  "fields_from cur [] = (if cur = [] then [] else [cur])"
| "fields_from cur (c # cs) =
     (if asciiSpace c then (if cur = [] then fields_from [] cs else cur # fields_from [] cs)
      else fields_from (cur @ [c]) cs)"

definition Fields :: "string \<Rightarrow> string list" where
  "Fields s = fields_from [] s"

text \<open>
  \<open>ToFloat64\<close> and \<open>ToInt\<close> are the conversion helpers of the go-strings library,
  outside this repository: \<open>NewMeasureFromString\<close> takes them as parameters, \<open>None\<close>
  standing for a conversion error.
\<close>

definition NewMeasureFromString ::
  "(string \<Rightarrow> float64 option) \<Rightarrow> (string \<Rightarrow> int option) \<Rightarrow> string \<Rightarrow> bool \<Rightarrow> float64
     \<Rightarrow> error + Measure" where
  "NewMeasureFromString ToFloat64 ToInt measureStr upsideDown adjustment =
     (let fields0 = Fields measureStr;
          sync = (length fields0 = 4 \<and> fields0 ! 0 = SyncBitCharacter);
          fields = (if sync then tl fields0 else fields0)
      in if \<not> length fields = 3 then Inl (ErrExpected3Fields (length fields))
         else
           (case ToFloat64 (fields ! AngleIndex) of
              None \<Rightarrow> Inl ErrParseAngle
            | Some a \<Rightarrow>
                (case ToFloat64 (fields ! DistanceIndex) of
                   None \<Rightarrow> Inl ErrParseDistance
                 | Some d \<Rightarrow>
                     (case ToInt (fields ! QualityIndex) of
                        None \<Rightarrow> Inl ErrParseQuality
                      | Some q \<Rightarrow> NewMeasure a d q sync upsideDown adjustment))))"

text \<open>
  For evaluating concrete lines, readers of the plain decimal notation (a sign, digits,
  an optional fraction) stand for the library's helpers, which accept further
  notations (exponents, infinities, NaN).
\<close>

definition digit_value :: "char \<Rightarrow> nat option" where
  "digit_value c =
     (if c \<in> set ''0123456789'' then Some (of_char c - 48) else None)"

fun digits_value :: "nat \<Rightarrow> string \<Rightarrow> nat option" where
  "digits_value acc [] = Some acc"
| "digits_value acc (c # cs) =
     (case digit_value c of None \<Rightarrow> None | Some d \<Rightarrow> digits_value (10 * acc + d) cs)"

definition unsigned_decimal :: "string \<Rightarrow> real option" where
  "unsigned_decimal s =
     (let ip = takeWhile (\<lambda>c. \<not> c = CHR ''.'') s;
          rest = dropWhile (\<lambda>c. \<not> c = CHR ''.'') s;
          fp = tl rest
      in if ip = [] then None
         else
           (case (digits_value 0 ip, digits_value 0 fp) of
              (Some i, Some f) \<Rightarrow> Some (real i + real f / 10 ^ length fp)
            | _ \<Rightarrow> None))"

definition decimal_ToFloat64 :: "string \<Rightarrow> float64 option" where
  "decimal_ToFloat64 s =
     (case s of
        [] \<Rightarrow> None
      | c # cs \<Rightarrow>
          if c = CHR ''-'' then map_option (\<lambda>x. Finite (- x)) (unsigned_decimal cs)
          else if c = CHR ''+'' then map_option Finite (unsigned_decimal cs)
          else map_option Finite (unsigned_decimal s))"

definition decimal_ToInt :: "string \<Rightarrow> int option" where
  "decimal_ToInt s =
     (case s of
        [] \<Rightarrow> None
      | c # cs \<Rightarrow>
          if c = CHR ''-'' then (if cs = [] then None else map_option (\<lambda>n. - int n) (digits_value 0 cs))
          else if c = CHR ''+'' then (if cs = [] then None else map_option int (digits_value 0 cs))
          else map_option int (digits_value 0 s))"

section \<open>The handler\<close>

text \<open>
  The fields of \<open>DefaultHandler\<close> that \<open>Run\<close> and the queries read or write. The
  mutex is a flag (held or free); the logger and the read-write mutex of the buffer
  are left out; \<open>'p\<close> is the type of logger producers.
\<close>

record 'p DefaultHandler =
  handlerMutex :: bool
  isRunning :: bool
  handlerLoggerProducer :: "'p option"
  baudRate :: int
  isUpsideDown :: bool
  angleAdjustment :: float64
  measures :: measures
  stdoutLinesRead :: int
  ultraSimplePath :: string
  maxDistanceLimit :: float64
  port :: string

definition IsRunning :: "'p DefaultHandler \<Rightarrow> bool" where
  "IsRunning h = isRunning h"

text \<open>\<open>Lock\<close> on a held mutex blocks: the call does not proceed (\<open>None\<close>).\<close>

definition Lock :: "'p DefaultHandler \<Rightarrow> 'p DefaultHandler option" where
  "Lock h = (if handlerMutex h then None else Some (h\<lparr>handlerMutex := True\<rparr>))"

definition Unlock :: "'p DefaultHandler \<Rightarrow> 'p DefaultHandler" where
  "Unlock h = h\<lparr>handlerMutex := False\<rparr>"

text \<open>
  \<open>runToWrap\<close> resets the buffer and the counter of startup lines; everything after
  that (the external process and the draining of its two streams, which write the buffer
  and the counter) is the parameter \<open>acquire\<close>.
\<close>

definition runToWrap ::
  "('p DefaultHandler \<Rightarrow> error option \<times> 'p DefaultHandler) \<Rightarrow> 'p DefaultHandler
     \<Rightarrow> error option \<times> 'p DefaultHandler" where
  "runToWrap acquire h =
     acquire (h\<lparr>measures := replicate 360 None, stdoutLinesRead := 0\<rparr>)"

text \<open>
  \<open>Run\<close>: the check of the running flag under the mutex, the run itself and the
  deferred reset of the flag. \<open>newProducer\<close> is the result of the logger's
  \<open>NewProducer\<close> (\<open>None\<close> when it fails).
\<close>

definition Run ::
  "'p option \<Rightarrow> ('p DefaultHandler \<Rightarrow> error option \<times> 'p DefaultHandler) \<Rightarrow> 'p DefaultHandler
     \<Rightarrow> (error option \<times> 'p DefaultHandler) option" where
  "Run newProducer acquire h =
     (case Lock h of
        None \<Rightarrow> None
      | Some h1 \<Rightarrow>
          if IsRunning h1 then Some (Some ErrHandlerAlreadyRunning, Unlock h1)
          else
            (let h2 = Unlock (h1\<lparr>isRunning := True\<rparr>);
                 (err, h3) =
                   (case newProducer of
                      None \<Rightarrow> (Some ErrCreateProducer, h2)
                    | Some p \<Rightarrow> runToWrap acquire (h2\<lparr>handlerLoggerProducer := Some p\<rparr>))
             in (case Lock h3 of
                   None \<Rightarrow> None
                 | Some h4 \<Rightarrow> Some (err, Unlock (h4\<lparr>isRunning := False\<rparr>)))))"

definition GetMeasures :: "'p DefaultHandler \<Rightarrow> measures" where
  "GetMeasures h = measures h"

definition DefaultHandler_GetAverageDistanceFromAngle ::
  "'p DefaultHandler \<Rightarrow> int \<Rightarrow> int \<Rightarrow> float64 result" where
  "DefaultHandler_GetAverageDistanceFromAngle h middleAngle width =
     GetAverageDistanceFromAngle (GetMeasures h) middleAngle width"

definition DefaultHandler_GetAverageDistancesFromAllDirections ::
  "'p DefaultHandler \<Rightarrow> int \<Rightarrow> (CardinalDirection \<rightharpoonup> float64) result" where
  "DefaultHandler_GetAverageDistancesFromAllDirections h width =
     GetAverageDistanceFromAllDirections (GetMeasures h) width"

text \<open>A handler in the middle of a run, for evaluating \<open>Run\<close>: the flag is set, 100
  lines have been read and the buffer holds a reading at 90 degrees.\<close>

definition running_handler :: "unit DefaultHandler" where
  "running_handler =
     \<lparr>handlerMutex = False, isRunning = True, handlerLoggerProducer = Some (),
      baudRate = 460800, isUpsideDown = False, angleAdjustment = Finite 0,
      measures = (replicate 360 None)
        [90 := Some \<lparr>angle = Finite 90.5, distance = Finite 1500, quality = 47, hasSyncBit = False\<rparr>],
      stdoutLinesRead = 100, ultraSimplePath = ''/usr/local/bin/ultra_simple'',
      maxDistanceLimit = Finite 12000, port = ''/dev/ttyUSB0''\<rparr>"

section \<open>Properties of the averaging engine\<close>

lemma go_rem_2: "(go_rem width 2 = 0) = even width"
  unfolding go_rem_def by (auto simp: sgn_if)

lemma go_quot_2: "0 \<le> a \<Longrightarrow> go_quot a 2 = a div 2"
  unfolding go_quot_def by (auto simp: sgn_if)

lemma mod_360_shift: "- 360 \<le> (a::int) \<Longrightarrow> a < 0 \<Longrightarrow> a mod 360 = a + 360"
  by presburger

lemma mod_360_id: "0 \<le> (a::int) \<Longrightarrow> a < 360 \<Longrightarrow> a mod 360 = a"
  by simp

text \<open>The loop over angles that are all inside the buffer returns the sum and the count
  of the contributing slots; it panics at the first angle outside the buffer.\<close>

lemma average_loop_in_range:
  "\<forall>a \<in> set as. 0 \<le> a \<and> a < int (length ms) \<Longrightarrow>
   average_loop ms as t c =
     Ok (foldl fadd t
           (map (\<lambda>a. slot_distance (ms ! nat a)) (filter (\<lambda>a. contributes (ms ! nat a)) as)),
         c + int (length (filter (\<lambda>a. contributes (ms ! nat a)) as)))"
proof (induction as arbitrary: t c)
  case Nil
  then show ?case by simp
next
  case (Cons a as)
  then have a: "index_measures ms a = Inr (ms ! nat a)"
    by (simp add: index_measures_def)
  from Cons.prems have rest: "\<forall>a \<in> set as. 0 \<le> a \<and> a < int (length ms)"
    by simp
  show ?case
  proof (cases "ms ! nat a")
    case None
    then show ?thesis
      using a Cons.IH [OF rest] by (simp add: contributes_def)
  next
    case (Some m)
    then show ?thesis
      using a Cons.IH [OF rest]
      by (simp add: contributes_def slot_distance_def GetDistance_def GetQuality_def)
  qed
qed

lemma average_loop_panics:
  "\<forall>a \<in> set as. 0 \<le> a \<and> a < int (length ms) \<Longrightarrow> \<not> (0 \<le> b \<and> b < int (length ms)) \<Longrightarrow>
   average_loop ms (as @ b # bs) t c = Panicked (IndexOutOfRange b (length ms))"
proof (induction as arbitrary: t c)
  case Nil
  then show ?case by (auto simp add: index_measures_def)
next
  case (Cons a as)
  then have a: "index_measures ms a = Inr (ms ! nat a)"
    by (simp add: index_measures_def)
  from Cons.prems have rest: "\<forall>a \<in> set as. 0 \<le> a \<and> a < int (length ms)"
    by simp
  show ?case
    using a Cons.IH [OF rest Cons.prems(2)]
    by (cases "ms ! nat a") simp_all
qed

text \<open>The collected angles, by the position of the window.\<close>

lemma window_angles_plain:
  assumes "1 < width" "0 \<le> middleAngle - (width - 1) div 2"
    and "middleAngle + (width - 1) div 2 < 360"
  shows "window_angles middleAngle width =
           [middleAngle - (width - 1) div 2 .. middleAngle + (width - 1) div 2]"
  using assms by (simp add: window_angles_def go_quot_2 Let_def)

lemma window_angles_left_wrap:
  assumes "1 < width" "middleAngle - (width - 1) div 2 < 0"
    and "middleAngle + (width - 1) div 2 < 360"
  shows "window_angles middleAngle width =
           [360 + (middleAngle - (width - 1) div 2) .. 359]
             @ [0 .. middleAngle + (width - 1) div 2]"
  using assms by (simp add: window_angles_def go_quot_2 Let_def)

lemma window_angles_right_wrap:
  assumes "1 < width" "0 \<le> middleAngle - (width - 1) div 2"
    and "360 \<le> middleAngle + (width - 1) div 2" and "middleAngle < 360"
  shows "window_angles middleAngle width =
           ([0 .. middleAngle + (width - 1) div 2 - 360]
              @ [middleAngle - (width - 1) div 2 .. 359]) @ [360]"
proof -
  have "middleAngle - (width - 1) div 2 \<le> 360"
    using assms by linarith
  then have "[middleAngle - (width - 1) div 2 .. 360]
      = [middleAngle - (width - 1) div 2 .. 359] @ [360]"
    using upto_rec2 [of "middleAngle - (width - 1) div 2" 360] by simp
  then show ?thesis
    using assms by (simp add: window_angles_def go_quot_2 Let_def)
qed

text \<open>A window that reaches 360 on the right: the third loop runs up to 360 itself,
  and the read of slot 360 panics, whatever the buffer holds.\<close>

lemma right_wrap_panics:
  assumes len: "length ms = 360"
    and mid: "0 \<le> middleAngle" "middleAngle < 360"
    and w: "odd width" "1 < width" "width < 360"
    and wrap: "360 \<le> middleAngle + (width - 1) div 2"
  shows "GetAverageDistanceFromAngle ms middleAngle width = Panicked (IndexOutOfRange 360 360)"
proof -
  let ?h = "(width - 1) div 2"
  have left: "0 \<le> middleAngle - ?h"
    using mid w wrap by linarith
  have inr: "\<forall>a \<in> set ([0 .. middleAngle + ?h - 360] @ [middleAngle - ?h .. 359]).
      0 \<le> a \<and> a < int (length ms)"
    using len mid w left by auto
  have "average_loop ms (window_angles middleAngle width) (Finite 0) 0
      = Panicked (IndexOutOfRange 360 (length ms))"
    unfolding window_angles_right_wrap [OF w(2) left wrap mid(2)]
    by (rule average_loop_panics [OF inr]) (simp add: len)
  then show ?thesis
    using w len by (simp add: GetAverageDistanceFromAngle_def go_rem_2)
qed

text \<open>A window that stays below 360 on the right (it may wrap below 0): the inspected
  angles are the window modulo 360, each once, all inside the buffer.\<close>

lemma window_angles_set:
  assumes mid: "0 \<le> middleAngle" "middleAngle < 360"
    and w: "odd width" "1 < width" "width < 360"
    and nowrap: "middleAngle + (width - 1) div 2 < 360"
  shows "set (window_angles middleAngle width) =
           (\<lambda>k. (middleAngle + k) mod 360) ` {- ((width - 1) div 2) .. (width - 1) div 2}"
proof (cases "0 \<le> middleAngle - (width - 1) div 2")
  case True
  let ?h = "(width - 1) div 2"
  have "(\<lambda>k. (middleAngle + k) mod 360) ` {- ?h .. ?h} = (\<lambda>k. middleAngle + k) ` {- ?h .. ?h}"
    using True nowrap by (intro image_cong) auto
  also have "\<dots> = {middleAngle - ?h .. middleAngle + ?h}"
    by (simp add: image_add_atLeastAtMost)
  finally show ?thesis
    using window_angles_plain [OF w(2) True nowrap] by simp
next
  case False
  let ?h = "(width - 1) div 2"
  have neg: "middleAngle - ?h < 0"
    using False by simp
  have hb: "?h < 180"
    using w by linarith
  have "(\<lambda>k. (middleAngle + k) mod 360) ` {- ?h .. ?h}
      = {360 + (middleAngle - ?h) .. 359} \<union> {0 .. middleAngle + ?h}"
  proof (intro set_eqI iffI)
    fix x
    assume "x \<in> (\<lambda>k. (middleAngle + k) mod 360) ` {- ?h .. ?h}"
    then obtain k where k: "- ?h \<le> k" "k \<le> ?h" "x = (middleAngle + k) mod 360"
      by auto
    show "x \<in> {360 + (middleAngle - ?h) .. 359} \<union> {0 .. middleAngle + ?h}"
    proof (cases "0 \<le> middleAngle + k")
      case True
      then have "x = middleAngle + k"
        using k nowrap by (simp add: mod_360_id)
      then show ?thesis
        using True k by simp
    next
      case False
      then have "x = middleAngle + k + 360"
        using k mid hb by (simp add: mod_360_shift)
      then show ?thesis
        using False k by simp
    qed
  next
    fix x
    assume "x \<in> {360 + (middleAngle - ?h) .. 359} \<union> {0 .. middleAngle + ?h}"
    then consider "360 + (middleAngle - ?h) \<le> x" "x \<le> 359"
      | "0 \<le> x" "x \<le> middleAngle + ?h"
      by auto
    then show "x \<in> (\<lambda>k. (middleAngle + k) mod 360) ` {- ?h .. ?h}"
    proof cases
      case 1
      have "(middleAngle + (x - 360 - middleAngle)) mod 360 = x"
        using 1 mid hb by (simp add: mod_360_shift)
      moreover have "x - 360 - middleAngle \<in> {- ?h .. ?h}"
        using 1 mid hb by simp
      ultimately show ?thesis
        by (metis (no_types, lifting) image_eqI)
    next
      case 2
      have "(middleAngle + (x - middleAngle)) mod 360 = x"
        using 2 nowrap by (simp add: mod_360_id)
      moreover have "x - middleAngle \<in> {- ?h .. ?h}"
        using 2 neg by simp
      ultimately show ?thesis
        by (metis (no_types, lifting) image_eqI)
    qed
  qed
  then show ?thesis
    using window_angles_left_wrap [OF w(2) neg nowrap] by simp
qed

lemma window_angles_distinct:
  assumes mid: "0 \<le> middleAngle" "middleAngle < 360"
    and w: "odd width" "1 < width" "width < 360"
    and nowrap: "middleAngle + (width - 1) div 2 < 360"
  shows "distinct (window_angles middleAngle width)"
proof (cases "0 \<le> middleAngle - (width - 1) div 2")
  case True
  then show ?thesis
    using window_angles_plain [OF w(2) True nowrap] by simp
next
  case False
  then have neg: "middleAngle - (width - 1) div 2 < 0"
    by simp
  have "(width - 1) div 2 < 180"
    using w by linarith
  then show ?thesis
    using window_angles_left_wrap [OF w(2) neg nowrap] mid by auto
qed

lemma window_angles_in_range:
  assumes mid: "0 \<le> middleAngle" "middleAngle < 360"
    and w: "odd width" "1 < width" "width < 360"
    and nowrap: "middleAngle + (width - 1) div 2 < 360"
  shows "\<forall>a \<in> set (window_angles middleAngle width). 0 \<le> a \<and> a < 360"
  unfolding window_angles_set [OF assms] by simp

lemma no_right_wrap_average:
  assumes len: "length ms = 360"
    and mid: "0 \<le> middleAngle" "middleAngle < 360"
    and w: "odd width" "1 < width" "width < 360"
    and nowrap: "middleAngle + (width - 1) div 2 < 360"
  shows "GetAverageDistanceFromAngle ms middleAngle width =
           Ok (fdiv (window_sum ms (window_angles middleAngle width))
                 (float64_of_int (window_count ms (window_angles middleAngle width))))"
proof -
  have "\<forall>a \<in> set (window_angles middleAngle width). 0 \<le> a \<and> a < int (length ms)"
    using window_angles_in_range [OF mid w nowrap] len by simp
  from average_loop_in_range [OF this]
  show ?thesis
    using w by (simp add: GetAverageDistanceFromAngle_def go_rem_2 window_sum_def window_count_def)
qed

text \<open>With no contributing slot in such a window the quotient is 0/0, which is returned
  as the value NaN, with no error.\<close>

lemma no_right_wrap_no_data:
  assumes len: "length ms = 360"
    and mid: "0 \<le> middleAngle" "middleAngle < 360"
    and w: "odd width" "1 < width" "width < 360"
    and nowrap: "middleAngle + (width - 1) div 2 < 360"
    and none: "window_count ms (window_angles middleAngle width) = 0"
  shows "GetAverageDistanceFromAngle ms middleAngle width = Ok NaN"
proof -
  from none have "filter (\<lambda>a. contributes (ms ! nat a)) (window_angles middleAngle width) = []"
    by (simp add: window_count_def)
  then have "window_sum ms (window_angles middleAngle width) = Finite 0"
    by (simp add: window_sum_def)
  then show ?thesis
    using no_right_wrap_average [OF len mid w nowrap] none by (simp add: float64_of_int_def)
qed

lemmas average_eval =
  GetAverageDistanceFromAngle_def window_angles_def go_quot_def go_rem_def
  index_measures_def float64_of_int_def GetDistance_def GetQuality_def

section \<open>Claims about the averaging engine\<close>

text \<open>
  C1. For every buffer, every middle angle in [0,360) and every valid width above 1, the
  angles inspected are exactly the window modulo 360, each once, the contributing slots
  are the present ones with nonzero distance and quality, and the result is sum/count.
  The code does not do this for a window that reaches 360: at middle angle 359 and width
  3 the angles collected are 0, 358, 359 and 360; 360 is not an angle of the window
  {358, 359, 0}, and reading slot 360 panics instead of returning sum/count.
\<close>

theorem window_359_3_inspects_360:
  "window_angles 359 3 = [0, 358, 359, 360]
   \<and> 360 \<notin> (\<lambda>k. (359 + k) mod 360) ` {- ((3 - 1) div 2) .. (3 - 1) div (2::int)}
   \<and> GetAverageDistanceFromAngle (replicate 360 None) 359 3
       = Panicked (IndexOutOfRange 360 360)"
proof -
  have "window_angles 359 3 = [0, 358, 359, 360]"
    by (simp add: window_angles_def go_quot_def)
  moreover have "360 \<notin> (\<lambda>k. (359 + k) mod 360) ` {- ((3 - 1) div 2) .. (3 - 1) div (2::int)}"
  proof
    assume "360 \<in> (\<lambda>k. (359 + k) mod 360) ` {- ((3 - 1) div 2) .. (3 - 1) div (2::int)}"
    then obtain k :: int where "360 = (359 + k) mod 360"
      by auto
    moreover have "(359 + k) mod 360 < 360"
      by simp
    ultimately show False
      by simp
  qed
  moreover have "GetAverageDistanceFromAngle (replicate 360 None) 359 3
      = Panicked (IndexOutOfRange 360 360)"
    by (simp add: average_eval)
  ultimately show ?thesis
    by simp
qed

text \<open>
  C2. For every middle angle in [0,359] and every accepted width, every read of the
  buffer uses an index in [0,359]. The code reads index 360 exactly when the window
  reaches 360 on the right, and then panics; otherwise it returns a value.
\<close>

theorem index_360_read_iff_right_wrap:
  assumes "length ms = 360" "0 \<le> middleAngle" "middleAngle < 360"
    and "odd width" "1 < width" "width < 360"
  shows "(360 \<le> middleAngle + (width - 1) div 2 \<longrightarrow>
            GetAverageDistanceFromAngle ms middleAngle width = Panicked (IndexOutOfRange 360 360))
       \<and> (middleAngle + (width - 1) div 2 < 360 \<longrightarrow>
            (\<exists>v. GetAverageDistanceFromAngle ms middleAngle width = Ok v))"
  using right_wrap_panics [OF assms] no_right_wrap_average [OF assms] by simp

theorem index_360_read_iff_right_wrap_witness:
  "length (replicate 360 (None :: Measure option)) = 360 \<and> (0::int) \<le> 359 \<and> (359::int) < 360
   \<and> odd (3::int) \<and> (1::int) < 3 \<and> (3::int) < 360 \<and> (360::int) \<le> 359 + (3 - 1) div 2
   \<and> GetAverageDistanceFromAngle (replicate 360 None) 359 3 = Panicked (IndexOutOfRange 360 360)
   \<and> (100::int) + (3 - 1) div 2 < 360
   \<and> (\<exists>v. GetAverageDistanceFromAngle (replicate 360 None) 100 3 = Ok v)"
  using index_360_read_iff_right_wrap [of "replicate 360 None" 359 3]
    index_360_read_iff_right_wrap [of "replicate 360 None" 100 3]
  by simp

text \<open>
  C5. The three width violations fail with three pairwise distinct errors, and the error
  for width 4 differs from the one for width 0 and from the one for width 361. The code
  tests evenness first, so width 0, which is even, fails with the same error as width 4.
\<close>

theorem width_0_same_error_as_width_4:
  "GetAverageDistanceFromAngle (replicate 360 None) 0 4 = Failed ErrAngleWidthMustBeOdd
   \<and> GetAverageDistanceFromAngle (replicate 360 None) 0 0 = Failed ErrAngleWidthMustBeOdd"
  by (simp add: GetAverageDistanceFromAngle_def go_rem_def)

text \<open>
  C5 as amended: the checks run in the order not odd, too small, too large, whatever the
  buffer and the middle angle. Every even width (0 and the negative even ones too) fails
  with \<open>ErrAngleWidthMustBeOdd\<close>, every odd width below 1 with
  \<open>ErrAngleWidthTooSmall\<close>, every odd width from 360 on with
  \<open>ErrAngleWidthTooLarge\<close>, and the three errors are pairwise distinct. So the error
  for width 4 equals the one for width 0 and differs from the one for width 361.
\<close>

theorem width_errors_in_check_order:
  "(even width \<longrightarrow>
      GetAverageDistanceFromAngle ms middleAngle width = Failed ErrAngleWidthMustBeOdd)
   \<and> (odd width \<and> width < 1 \<longrightarrow>
      GetAverageDistanceFromAngle ms middleAngle width = Failed ErrAngleWidthTooSmall)
   \<and> (odd width \<and> 360 \<le> width \<longrightarrow>
      GetAverageDistanceFromAngle ms middleAngle width = Failed ErrAngleWidthTooLarge)
   \<and> distinct [ErrAngleWidthMustBeOdd, ErrAngleWidthTooSmall, ErrAngleWidthTooLarge]
   \<and> GetAverageDistanceFromAngle ms middleAngle 4 = GetAverageDistanceFromAngle ms middleAngle 0
   \<and> GetAverageDistanceFromAngle ms middleAngle 4 \<noteq> GetAverageDistanceFromAngle ms middleAngle 361"
  by (simp add: GetAverageDistanceFromAngle_def go_rem_2)

theorem width_errors_in_check_order_witness:
  "even (4::int)
   \<and> GetAverageDistanceFromAngle (replicate 360 None) 7 4 = Failed ErrAngleWidthMustBeOdd
   \<and> odd (- 1 :: int) \<and> (- 1 :: int) < 1
   \<and> GetAverageDistanceFromAngle (replicate 360 None) 7 (- 1) = Failed ErrAngleWidthTooSmall
   \<and> odd (361::int) \<and> (360::int) \<le> 361
   \<and> GetAverageDistanceFromAngle (replicate 360 None) 7 361 = Failed ErrAngleWidthTooLarge"
  using width_errors_in_check_order [of 4 "replicate 360 None" 7]
    width_errors_in_check_order [of "- 1" "replicate 360 None" 7]
    width_errors_in_check_order [of 361 "replicate 360 None" 7]
  by simp

text \<open>
  C7. For every valid width above 1 and every middle angle, a window with no contributing
  slot makes the call return 0/0 with no error. Where the window stays below 360 the code
  does so (lemma \<open>no_right_wrap_no_data\<close>; here at middle angle 358); at middle angle
  359 and width 3 on the empty buffer, where no slot contributes either, the call panics
  and returns nothing.
\<close>

theorem no_data_at_359_panics:
  "filter contributes (replicate 360 None) = []
   \<and> GetAverageDistanceFromAngle (replicate 360 None) 359 3 = Panicked (IndexOutOfRange 360 360)
   \<and> GetAverageDistanceFromAngle (replicate 360 None) 358 3 = Ok NaN"
proof -
  have "filter contributes (replicate 360 None) = []"
    by (simp add: filter_empty_conv contributes_def)
  moreover have "GetAverageDistanceFromAngle (replicate 360 None) 359 3
      = Panicked (IndexOutOfRange 360 360)"
    by (simp add: average_eval)
  moreover have "GetAverageDistanceFromAngle (replicate 360 None) 358 3 = Ok NaN"
    by (simp add: average_eval)
  ultimately show ?thesis
    by simp
qed

text \<open>
  C8. For every buffer and every middle angle in [0,359], width 1 returns 0.0 with no
  error when the slot at the middle angle is absent, and that slot's distance with no
  error when it is present, whatever its distance and quality.
\<close>

theorem width_1_returns_slot_distance:
  assumes "length ms = 360" "0 \<le> middleAngle" "middleAngle < 360"
  shows "(ms ! nat middleAngle = None \<longrightarrow>
            GetAverageDistanceFromAngle ms middleAngle 1 = Ok (Finite 0))
       \<and> (\<forall>m. ms ! nat middleAngle = Some m \<longrightarrow>
            GetAverageDistanceFromAngle ms middleAngle 1 = Ok (distance m))"
  using assms
  by (simp add: GetAverageDistanceFromAngle_def go_rem_2 index_measures_def GetDistance_def)

theorem width_1_returns_slot_distance_witness:
  "length (replicate 360 (None :: Measure option)) = 360 \<and> (0::int) \<le> 10 \<and> (10::int) < 360
   \<and> replicate 360 (None :: Measure option) ! nat 10 = None
   \<and> GetAverageDistanceFromAngle (replicate 360 None) 10 1 = Ok (Finite 0)
   \<and> length ((replicate 360 None)
        [10 := Some \<lparr>angle = Finite 10.5, distance = Finite 1234, quality = 0, hasSyncBit = False\<rparr>]) = 360
   \<and> (replicate 360 None)
        [10 := Some \<lparr>angle = Finite 10.5, distance = Finite 1234, quality = 0, hasSyncBit = False\<rparr>] ! nat 10
       = Some \<lparr>angle = Finite 10.5, distance = Finite 1234, quality = 0, hasSyncBit = False\<rparr>
   \<and> GetAverageDistanceFromAngle
        ((replicate 360 None)
          [10 := Some \<lparr>angle = Finite 10.5, distance = Finite 1234, quality = 0, hasSyncBit = False\<rparr>])
        10 1 = Ok (Finite 1234)"
  using width_1_returns_slot_distance [of "replicate 360 None" 10]
    width_1_returns_slot_distance
      [of "(replicate 360 None)
        [10 := Some \<lparr>angle = Finite 10.5, distance = Finite 1234, quality = 0, hasSyncBit = False\<rparr>]" 10]
  by simp

section \<open>Claims about the direction queries\<close>

lemmas direction_eval =
  GetAverageDistanceFromDirection_def Angle_def CardinalDirectionAngles_def fge_def

lemma direction_delegates:
  "GetAverageDistanceFromDirection ms width d
     = GetAverageDistanceFromAngle ms (direction_degree d) width"
  by (cases d) (simp_all add: direction_eval)

lemma direction_degree_range: "0 \<le> direction_degree d \<and> direction_degree d \<le> 338"
  by (cases d) simp_all

lemma rounds_by_semicircle:
  "Angle d = Finite x \<Longrightarrow>
   GetAverageDistanceFromDirection ms width d
     = GetAverageDistanceFromAngle ms (semicircle_round x) width"
  by (cases "180 \<le> x")
    (auto simp add: GetAverageDistanceFromDirection_def fge_def semicircle_round_def Let_def)

lemma Angle_finite: "\<exists>x. Angle d = Finite x"
proof (cases "Angle d")
  case (Finite x)
  then show ?thesis by simp
next
  case PosInf
  then show ?thesis
    by (cases d) (simp_all add: Angle_def CardinalDirectionAngles_def)
next
  case NegInf
  then show ?thesis
    by (cases d) (simp_all add: Angle_def CardinalDirectionAngles_def)
next
  case NaN
  then show ?thesis
    by (cases d) (simp_all add: Angle_def CardinalDirectionAngles_def)
qed

text \<open>
  C6. The direction's angle is rounded to the ceiling when it is at least 180 and to the
  floor otherwise, and the query is delegated at that degree; in particular 157.5 rounds
  to 158 and 22.5 to 22. The code floors 157.5, which is below 180: south-southeast is
  averaged at 157, so a reading at 158 alone is not seen by a width-1 query.
\<close>

theorem south_southeast_is_averaged_at_157:
  "Angle CardinalDirectionSouthSoutheast = Finite 157.5
   \<and> GetAverageDistanceFromDirection
        ((replicate 360 None)
          [158 := Some \<lparr>angle = Finite 158.2, distance = Finite 1000, quality = 47, hasSyncBit = False\<rparr>])
        1 CardinalDirectionSouthSoutheast = Ok (Finite 0)
   \<and> GetAverageDistanceFromAngle
        ((replicate 360 None)
          [158 := Some \<lparr>angle = Finite 158.2, distance = Finite 1000, quality = 47, hasSyncBit = False\<rparr>])
        158 1 = Ok (Finite 1000)"
  by (simp add: direction_eval average_eval)

text \<open>
  C6 as amended: the angle is rounded to the ceiling when it is at least 180 and to the
  floor otherwise, and the query is delegated to \<open>GetAverageDistanceFromAngle\<close> at
  that degree; in particular 157.5 rounds to 157 and 22.5 to 22, both below 180, while
  202.5 rounds to 203.
\<close>

theorem direction_rounds_by_semicircle:
  "(\<exists>x. Angle d = Finite x
        \<and> GetAverageDistanceFromDirection ms width d
            = GetAverageDistanceFromAngle ms (semicircle_round x) width)
   \<and> Angle CardinalDirectionSouthSoutheast = Finite 157.5 \<and> semicircle_round 157.5 = 157
   \<and> Angle CardinalDirectionNorthNortheast = Finite 22.5 \<and> semicircle_round 22.5 = 22
   \<and> Angle CardinalDirectionSouthSouthwest = Finite 202.5 \<and> semicircle_round 202.5 = 203"
proof -
  obtain x where x: "Angle d = Finite x"
    using Angle_finite by blast
  have "GetAverageDistanceFromDirection ms width d
      = GetAverageDistanceFromAngle ms (semicircle_round x) width"
    using x by (simp add: rounds_by_semicircle)
  with x show ?thesis
    by (simp add: Angle_def CardinalDirectionAngles_def semicircle_round_def)
qed

text \<open>The loop over the requested directions: it fills the map while every direction
  returns a value, and stops at the first one that does not.\<close>

lemma directions_loop_ok:
  "\<forall>d \<in> set ds. \<exists>v. GetAverageDistanceFromDirection ms width d = Ok v \<Longrightarrow>
   \<exists>m. directions_loop ms width ds acc = Ok m
     \<and> dom m = dom acc \<union> set ds
     \<and> (\<forall>d \<in> set ds. GetAverageDistanceFromDirection ms width d = Ok (the (m d)))
     \<and> (\<forall>d. d \<notin> set ds \<longrightarrow> m d = acc d)"
proof (induction ds arbitrary: acc)
  case Nil
  then show ?case by simp
next
  case (Cons d ds)
  then obtain v where v: "GetAverageDistanceFromDirection ms width d = Ok v"
    by auto
  from Cons.prems have "\<forall>d \<in> set ds. \<exists>v. GetAverageDistanceFromDirection ms width d = Ok v"
    by simp
  from Cons.IH [OF this, of "acc(d \<mapsto> v)"]
  obtain m where m: "directions_loop ms width ds (acc(d \<mapsto> v)) = Ok m"
    "dom m = dom (acc(d \<mapsto> v)) \<union> set ds"
    "\<forall>e \<in> set ds. GetAverageDistanceFromDirection ms width e = Ok (the (m e))"
    "\<forall>e. e \<notin> set ds \<longrightarrow> m e = (acc(d \<mapsto> v)) e"
    by blast
  have "GetAverageDistanceFromDirection ms width d = Ok (the (m d))"
  proof (cases "d \<in> set ds")
    case True
    then show ?thesis using m(3) by simp
  next
    case False
    then have "m d = Some v" using m(4) by simp
    then show ?thesis using v by simp
  qed
  moreover have "dom m = dom acc \<union> set (d # ds)"
    using m(2) by auto
  moreover have "\<forall>e. e \<notin> set (d # ds) \<longrightarrow> m e = acc e"
    using m(4) by simp
  ultimately show ?case
    using v m(1) m(3) by simp
qed

lemma directions_loop_panics:
  "\<forall>d \<in> set ds. (\<exists>v. GetAverageDistanceFromDirection ms width d = Ok v)
       \<or> GetAverageDistanceFromDirection ms width d = Panicked p \<Longrightarrow>
   \<exists>d \<in> set ds. GetAverageDistanceFromDirection ms width d = Panicked p \<Longrightarrow>
   directions_loop ms width ds acc = Panicked p"
proof (induction ds arbitrary: acc)
  case Nil
  then show ?case by simp
next
  case (Cons d ds)
  show ?case
  proof (cases "GetAverageDistanceFromDirection ms width d = Panicked p")
    case True
    then show ?thesis by simp
  next
    case False
    with Cons.prems(1) obtain v where v: "GetAverageDistanceFromDirection ms width d = Ok v"
      by auto
    from Cons.prems(2) False
    have ex: "\<exists>d \<in> set ds. GetAverageDistanceFromDirection ms width d = Panicked p"
      by auto
    from Cons.prems(1)
    have all: "\<forall>d \<in> set ds. (\<exists>v. GetAverageDistanceFromDirection ms width d = Ok v)
       \<or> GetAverageDistanceFromDirection ms width d = Panicked p"
      by simp
    show ?thesis
      using v Cons.IH [OF all ex] by simp
  qed
qed

lemma width_one_reads_slot:
  assumes "length ms = 360" "0 \<le> middleAngle" "middleAngle < 360"
  shows "GetAverageDistanceFromAngle ms middleAngle 1
           = Ok (slot_distance (ms ! nat middleAngle))"
  using assms
  by (simp add: GetAverageDistanceFromAngle_def go_rem_2 index_measures_def GetDistance_def
      slot_distance_def split: option.split)

lemma valid_width_ok_or_panic:
  assumes len: "length ms = 360"
    and mid: "0 \<le> middleAngle" "middleAngle < 360"
    and w: "odd width" "1 \<le> width" "width < 360"
  shows "(\<exists>v. GetAverageDistanceFromAngle ms middleAngle width = Ok v)
       \<or> GetAverageDistanceFromAngle ms middleAngle width = Panicked (IndexOutOfRange 360 360)"
proof (cases "width = 1")
  case True
  then show ?thesis
    using width_one_reads_slot [OF len mid] by simp
next
  case False
  then have w1: "1 < width" using w by simp
  show ?thesis
    using right_wrap_panics [OF len mid w(1) w1 w(3)]
      no_right_wrap_average [OF len mid w(1) w1 w(3)]
    by (cases "360 \<le> middleAngle + (width - 1) div 2") simp_all
qed

lemma no_right_wrap_ok:
  assumes len: "length ms = 360"
    and mid: "0 \<le> middleAngle" "middleAngle < 360"
    and w: "odd width" "1 \<le> width" "width < 360"
    and nowrap: "middleAngle + (width - 1) div 2 < 360"
  shows "\<exists>v. GetAverageDistanceFromAngle ms middleAngle width = Ok v"
proof (cases "width = 1")
  case True
  then show ?thesis
    using width_one_reads_slot [OF len mid] by simp
next
  case False
  then have w1: "1 < width" using w by simp
  show ?thesis
    using no_right_wrap_average [OF len mid w(1) w1 w(3) nowrap] by simp
qed

text \<open>Up to width 43 every direction's window stays below 360, and the map of all
  directions has the sixteen directions as its keys, each with its own average.\<close>

lemma all_directions_narrow:
  assumes len: "length ms = 360" and w: "odd width" "1 \<le> width" "width \<le> 43"
  shows "\<exists>m. GetAverageDistanceFromAllDirections ms width = Ok m
     \<and> dom m = set CardinalDirections
     \<and> (\<forall>d \<in> set CardinalDirections.
           GetAverageDistanceFromDirection ms width d = Ok (the (m d)))"
proof -
  have "\<exists>v. GetAverageDistanceFromDirection ms width d = Ok v" for d
  proof -
    have "direction_degree d + (width - 1) div 2 < 360"
      using direction_degree_range [of d] w by linarith
    moreover have "0 \<le> direction_degree d" "direction_degree d < 360"
      using direction_degree_range [of d] by simp_all
    ultimately show ?thesis
      unfolding direction_delegates
      using no_right_wrap_ok [OF len _ _ w(1) w(2)] w(3) by simp
  qed
  then have "\<forall>d \<in> set CardinalDirections. \<exists>v. GetAverageDistanceFromDirection ms width d = Ok v"
    by simp
  from directions_loop_ok [OF this, of Map.empty]
  show ?thesis
    by (auto simp: GetAverageDistanceFromAllDirections_def GetAverageDistancesFromDirections_def)
qed

text \<open>From width 45 on the window of north-northwest (338 degrees) reaches 360, its
  average panics, and so does the query for all directions.\<close>

lemma all_directions_wide_panics:
  assumes len: "length ms = 360" and w: "odd width" "45 \<le> width" "width < 360"
  shows "GetAverageDistanceFromAllDirections ms width = Panicked (IndexOutOfRange 360 360)"
proof -
  have each: "(\<exists>v. GetAverageDistanceFromDirection ms width d = Ok v)
      \<or> GetAverageDistanceFromDirection ms width d = Panicked (IndexOutOfRange 360 360)" for d
  proof -
    have "0 \<le> direction_degree d" "direction_degree d < 360"
      using direction_degree_range [of d] by simp_all
    then show ?thesis
      unfolding direction_delegates
      using valid_width_ok_or_panic [OF len _ _ w(1) _ w(3)] w(2) by simp
  qed
  have "360 \<le> 338 + (width - 1) div 2"
    using w by linarith
  then have "GetAverageDistanceFromAngle ms 338 width = Panicked (IndexOutOfRange 360 360)"
    using right_wrap_panics [OF len _ _ w(1) _ w(3), of 338] w(2) by simp
  then have "GetAverageDistanceFromDirection ms width CardinalDirectionNorthNorthwest
      = Panicked (IndexOutOfRange 360 360)"
    by (simp add: direction_delegates)
  moreover have "CardinalDirectionNorthNorthwest \<in> set CardinalDirections"
    by (simp add: CardinalDirections_def)
  ultimately have "\<exists>d \<in> set CardinalDirections.
      GetAverageDistanceFromDirection ms width d = Panicked (IndexOutOfRange 360 360)"
    by blast
  moreover have "\<forall>d \<in> set CardinalDirections.
      (\<exists>v. GetAverageDistanceFromDirection ms width d = Ok v)
      \<or> GetAverageDistanceFromDirection ms width d = Panicked (IndexOutOfRange 360 360)"
    using each by simp
  ultimately show ?thesis
    unfolding GetAverageDistanceFromAllDirections_def GetAverageDistancesFromDirections_def
    by (intro directions_loop_panics)
qed

text \<open>
  C10. For every valid width the query for all directions returns a map with exactly the
  sixteen directions as keys, each value being that direction's average. The code
  returns no map at width 45 (odd, at least 1, below 360): the average of
  north-northwest reads slot 360 and panics. At width 43 the map is returned.
\<close>

theorem all_directions_width_45_panics:
  "odd (45::int) \<and> (1::int) \<le> 45 \<and> (45::int) < 360
   \<and> GetAverageDistanceFromAllDirections (replicate 360 None) 45
       = Panicked (IndexOutOfRange 360 360)
   \<and> GetAverageDistanceFromDirection (replicate 360 None) 45 CardinalDirectionNorthNorthwest
       = Panicked (IndexOutOfRange 360 360)
   \<and> (\<exists>m. GetAverageDistanceFromAllDirections (replicate 360 None) 43 = Ok m
         \<and> dom m = set CardinalDirections)"
proof -
  have "GetAverageDistanceFromAllDirections (replicate 360 None) 45
      = Panicked (IndexOutOfRange 360 360)"
    using all_directions_wide_panics [of "replicate 360 None" 45] by simp
  moreover have "GetAverageDistanceFromDirection (replicate 360 None) 45
      CardinalDirectionNorthNorthwest = Panicked (IndexOutOfRange 360 360)"
    using right_wrap_panics [of "replicate 360 None" 338 45] by (simp add: direction_delegates)
  moreover have "\<exists>m. GetAverageDistanceFromAllDirections (replicate 360 None) 43 = Ok m
         \<and> dom m = set CardinalDirections"
    using all_directions_narrow [of "replicate 360 None" 43] by auto
  ultimately show ?thesis
    by simp
qed

section \<open>Claims about measures\<close>

lemma no_space_chars:
  "\<not> asciiSpace CHR ''-''" "\<not> asciiSpace CHR ''+''" "\<not> asciiSpace CHR ''.''"
  "\<not> asciiSpace CHR '',''" "\<not> asciiSpace CHR ''I''" "\<not> asciiSpace CHR ''n''"
  "\<not> asciiSpace CHR ''f''" "\<not> asciiSpace CHR ''N''" "\<not> asciiSpace CHR ''a''"
  by (simp_all add: asciiSpace_def)

lemma digit_chars_no_space: "\<forall>c \<in> set ''0123456789''. \<not> asciiSpace c"
  by (simp add: asciiSpace_def)

lemma digit_char_no_space:
  assumes "d < 10"
  shows "\<not> asciiSpace (digit_char d)"
proof -
  have len: "length ''0123456789'' = 10"
    by simp
  have "d < length ''0123456789''"
    unfolding len by (rule assms)
  then have "digit_char d \<in> set ''0123456789''"
    unfolding digit_char_def by (rule nth_mem)
  then show ?thesis
    using digit_chars_no_space by blast
qed

lemma decimal_digits_no_space: "\<forall>c \<in> set (decimal_digits n). \<not> asciiSpace c"
proof (induction n rule: decimal_digits.induct)
  case (1 n)
  show ?case
  proof (cases "n < 10")
    case True
    then show ?thesis
      by (simp add: decimal_digits.simps [of n] digit_char_no_space)
  next
    case False
    then show ?thesis
      using "1.IH" by (simp add: decimal_digits.simps [of n] digit_char_no_space)
  qed
qed

lemma decimal_digits_not_empty: "decimal_digits n \<noteq> []"
  by (simp add: decimal_digits.simps [of n])

lemma six_digits_no_space: "\<forall>c \<in> set (six_digits n). \<not> asciiSpace c"
  by (simp add: six_digits_def digit_char_no_space)

lemma format_f_no_space: "\<forall>c \<in> set (format_f x). \<not> asciiSpace c"
proof (cases x)
  case (Finite r)
  then show ?thesis
    by (simp add: Let_def ball_Un no_space_chars decimal_digits_no_space six_digits_no_space)
qed (simp_all add: no_space_chars)

lemma format_d_no_space: "\<forall>c \<in> set (format_d i). \<not> asciiSpace c"
  by (simp add: format_d_def ball_Un no_space_chars decimal_digits_no_space)

lemma String_no_space: "\<forall>c \<in> set (String m). \<not> asciiSpace c"
  by (simp add: String_def AttributesSeparator_def ball_Un no_space_chars
      format_f_no_space format_d_no_space)

lemma String_not_empty: "String m \<noteq> []"
  by (simp add: String_def AttributesSeparator_def)

lemma fields_from_no_space:
  "\<forall>c \<in> set s. \<not> asciiSpace c \<Longrightarrow>
   fields_from cur s = (if cur @ s = [] then [] else [cur @ s])"
  by (induction s arbitrary: cur) simp_all

lemma Fields_String: "Fields (String m) = [String m]"
  using fields_from_no_space [OF String_no_space, of "[]" m] String_not_empty [of m]
  by (simp add: Fields_def)

lemmas format_eval =
  String_def AttributesSeparator_def format_d_def round_half_even_def six_digits_def
  decimal_digits.simps digit_char_def

lemmas parse_eval =
  NewMeasureFromString_def Fields_def asciiSpace_def SyncBitCharacter_def AngleIndex_def
  DistanceIndex_def QualityIndex_def decimal_ToFloat64_def decimal_ToInt_def
  unsigned_decimal_def digit_value_def NewMeasure_def validateAngle_def fge_def fsub_def

text \<open>
  C3. Without a rotation marker, with a valid angle, not upside down and with adjustment
  0, serializing a measure with \<open>String\<close> and parsing the result with
  \<open>NewMeasureFromString\<close> succeeds and gives the same angle, distance and quality.
  The code does not: \<open>String\<close> separates the three values with commas, the parser
  splits at white space. The measure (90, 100.5, 47) is serialized as one token and
  rejected for its number of fields, while the same values separated by spaces parse.
\<close>

theorem serialized_measure_is_rejected:
  "String \<lparr>angle = Finite 90, distance = Finite 100.5, quality = 47, hasSyncBit = False\<rparr>
     = ''90.000000,100.500000,47''
   \<and> NewMeasureFromString decimal_ToFloat64 decimal_ToInt
        (String \<lparr>angle = Finite 90, distance = Finite 100.5, quality = 47, hasSyncBit = False\<rparr>)
        False (Finite 0)
       = Inl (ErrExpected3Fields 1)
   \<and> NewMeasureFromString decimal_ToFloat64 decimal_ToInt ''90.000000 100.500000 47''
        False (Finite 0)
       = Inr \<lparr>angle = Finite 90, distance = Finite 100.5, quality = 47, hasSyncBit = False\<rparr>"
proof -
  have s: "String \<lparr>angle = Finite 90, distance = Finite 100.5, quality = 47, hasSyncBit = False\<rparr>
     = ''90.000000,100.500000,47''"
    by (simp add: format_eval)
  have "NewMeasureFromString decimal_ToFloat64 decimal_ToInt ''90.000000,100.500000,47''
        False (Finite 0) = Inl (ErrExpected3Fields 1)"
    by (simp add: NewMeasureFromString_def Fields_def asciiSpace_def)
  moreover have "NewMeasureFromString decimal_ToFloat64 decimal_ToInt ''90.000000 100.500000 47''
        False (Finite 0)
       = Inr \<lparr>angle = Finite 90, distance = Finite 100.5, quality = 47, hasSyncBit = False\<rparr>"
    by (simp add: parse_eval)
  ultimately show ?thesis
    using s by simp
qed

text \<open>
  C3 as amended: for every measure, \<open>String\<close> gives a single token without white
  space, and \<open>NewMeasureFromString\<close> on it fails with the error for a wrong number of
  fields (1 instead of 3), whatever the conversion helpers, the mounting and the
  adjustment: the output of \<open>String\<close> is not a line the parser reads.
\<close>

theorem String_is_not_parsed_back:
  "Fields (String m) = [String m]
   \<and> NewMeasureFromString ToFloat64 ToInt (String m) upsideDown adjustment
       = Inl (ErrExpected3Fields 1)"
  by (simp add: Fields_String NewMeasureFromString_def)

text \<open>Without a rotation marker, a finite angle and an adjustment of magnitude below 360
  give a stored angle in [0,360) (in the exact arithmetic of the model).\<close>

lemma no_sync_bit_angle_in_range:
  assumes "NewMeasure (Finite a) d q False upsideDown (Finite r) = Inr m" and "\<bar>r\<bar> < 360"
  shows "\<exists>x. angle m = Finite x \<and> 0 \<le> x \<and> x < 360"
proof -
  from assms(1) have a: "0 \<le> a" "a < 360"
    by (auto simp add: NewMeasure_def validateAngle_def fge_def split: if_splits)
  show ?thesis
    using assms a
    by (cases upsideDown; cases "r = 0")
      (auto simp add: NewMeasure_def validateAngle_def fge_def fsub_def Let_def
        split: if_splits)
qed

text \<open>
  C4. With an adjustment of magnitude below 360, every measure that \<open>NewMeasure\<close>
  returns has its angle in [0,360), rotation markers and all mountings included. The
  code normalizes by one step of 360 only: a rotation-marker angle of 5 with adjustment
  -10 is stored as -5 (also when it comes from the line \<open>S 5 100 47\<close>), and a
  rotation-marker angle of 0 on an upside-down sensor is stored as 360.
\<close>

theorem sync_bit_angle_leaves_range:
  "NewMeasure (Finite 5) (Finite 100) 47 True False (Finite (- 10))
     = Inr \<lparr>angle = Finite (- 5), distance = Finite 100, quality = 47, hasSyncBit = True\<rparr>
   \<and> NewMeasureFromString decimal_ToFloat64 decimal_ToInt ''S 5 100 47'' False (Finite (- 10))
     = Inr \<lparr>angle = Finite (- 5), distance = Finite 100, quality = 47, hasSyncBit = True\<rparr>
   \<and> NewMeasure (Finite 0) (Finite 100) 47 True True (Finite 0)
     = Inr \<lparr>angle = Finite 360, distance = Finite 100, quality = 47, hasSyncBit = True\<rparr>"
proof -
  have "NewMeasure (Finite 5) (Finite 100) 47 True False (Finite (- 10))
     = Inr \<lparr>angle = Finite (- 5), distance = Finite 100, quality = 47, hasSyncBit = True\<rparr>"
    by (simp add: NewMeasure_def validateAngle_def fge_def fsub_def)
  moreover have "NewMeasureFromString decimal_ToFloat64 decimal_ToInt ''S 5 100 47'' False
      (Finite (- 10))
     = Inr \<lparr>angle = Finite (- 5), distance = Finite 100, quality = 47, hasSyncBit = True\<rparr>"
    by (simp add: parse_eval)
  moreover have "NewMeasure (Finite 0) (Finite 100) 47 True True (Finite 0)
     = Inr \<lparr>angle = Finite 360, distance = Finite 100, quality = 47, hasSyncBit = True\<rparr>"
    by (simp add: NewMeasure_def validateAngle_def fge_def fsub_def)
  ultimately show ?thesis
    by simp
qed

section \<open>Claims about the handler\<close>

text \<open>A run on an idle handler resets the buffer and the counter.\<close>

lemma Run_idle_resets:
  assumes "\<not> handlerMutex h" "\<not> isRunning h"
  shows "Run (Some p) (\<lambda>h. (None, h)) h
     = Some (None, h\<lparr>handlerLoggerProducer := Some p, measures := replicate 360 None,
                      stdoutLinesRead := 0\<rparr>)"
  using assms by (simp add: Run_def Lock_def Unlock_def IsRunning_def runToWrap_def)

text \<open>A run on an idle handler: the rest of the run (\<open>acquire\<close>) starts from a state
  with the mutex free, the flag set, and the buffer and the counter reset; this is the
  state in which a second call of \<open>Run\<close> finds the handler. The flag is cleared when
  the run ends.\<close>

lemma Run_idle_runs_acquire:
  assumes "\<not> handlerMutex h" "\<not> isRunning h"
    and "acquire (h\<lparr>isRunning := True, handlerMutex := False, handlerLoggerProducer := Some p,
              measures := replicate 360 None, stdoutLinesRead := 0\<rparr>) = (err, h')"
    and "\<not> handlerMutex h'"
  shows "Run (Some p) acquire h = Some (err, h'\<lparr>isRunning := False\<rparr>)"
proof -
  have "h'\<lparr>handlerMutex := True, isRunning := False, handlerMutex := False\<rparr>
      = h'\<lparr>isRunning := False\<rparr>"
    using assms(4) by simp
  then show ?thesis
    using assms by (simp add: Run_def Lock_def Unlock_def IsRunning_def runToWrap_def)
qed

text \<open>
  C9. \<open>Run\<close> on a handler that is already running returns the already-running error
  and leaves the whole state of the handler as it was: the flag stays set, the buffer
  and the counter of startup lines are not reset.
\<close>

theorem Run_while_running_changes_nothing:
  assumes "\<not> handlerMutex h" "IsRunning h"
  shows "Run newProducer acquire h = Some (Some ErrHandlerAlreadyRunning, h)"
  using assms by (simp add: Run_def Lock_def Unlock_def IsRunning_def)

theorem Run_while_running_changes_nothing_witness:
  "\<not> handlerMutex running_handler \<and> IsRunning running_handler
   \<and> Run (Some ()) (\<lambda>h. (None, h)) running_handler
       = Some (Some ErrHandlerAlreadyRunning, running_handler)
   \<and> stdoutLinesRead running_handler = 100
   \<and> measures running_handler ! 90
       = Some \<lparr>angle = Finite 90.5, distance = Finite 1500, quality = 47, hasSyncBit = False\<rparr>"
  using Run_while_running_changes_nothing [of running_handler "Some ()" "\<lambda>h. (None, h)"]
  by (simp add: running_handler_def IsRunning_def)

end
